theory Spec2Isabelle
  imports Complex_Main "HOL-Library.Word"
begin

section \<open>JavaScript numbers\<close>

text \<open>
  The code computes with JavaScript numbers, the IEEE 754 doubles. A number is a finite
  double, given by its value as a real, or one of \<open>Infinity\<close>, \<open>-Infinity\<close> and \<open>NaN\<close>.
  Every arithmetic operation returns the double nearest to the exact result, ties going
  to the even significand, and an infinity when that double is out of range. The sign
  of zero is not modelled: the code never divides by a computed zero. The entries of a
  tensor buffer are finite, so a buffer is a \<open>real list\<close>.
\<close>

datatype number = Num real | PosInfinity | NegInfinity | NaN

text \<open>\<open>2\<close> to the power \<open>e\<close>, for an integer \<open>e\<close>.\<close>

definition pow2 :: "int \<Rightarrow> real" where
  "pow2 e = (if 0 \<le> e then 2 ^ nat e else 1 / 2 ^ nat (- e))"

text \<open>
  The binary exponent of \<open>a > 0\<close>: \<open>halvings n a\<close> is the \<open>e \<ge> 0\<close> with
  \<open>2^e \<le> a < 2^(e+1)\<close> for \<open>a \<ge> 1\<close>, and \<open>doublings n a\<close> the \<open>e < 0\<close> with the same
  property for \<open>a < 1\<close>; both stop after \<open>n\<close> steps, at the largest and the smallest
  exponent of the format.
\<close>

fun halvings :: "nat \<Rightarrow> real \<Rightarrow> int" where
  "halvings n a = (if 0 < n \<and> 2 \<le> a then halvings (n - 1) (a / 2) + 1 else 0)"

fun doublings :: "nat \<Rightarrow> real \<Rightarrow> int" where
  "doublings n a = (if 0 < n \<and> a < 1 then doublings (n - 1) (2 * a) - 1 else 0)"

declare halvings.simps [simp del] doublings.simps [simp del]

text \<open>The integer nearest to \<open>t\<close>, the even one of the two when \<open>t\<close> lies half way.\<close>

definition round_even :: "real \<Rightarrow> int" where
  "round_even t =
     (let f = \<lfloor>t\<rfloor>
      in if t - of_int f < 1 / 2 then f
         else if 1 / 2 < t - of_int f then f + 1
         else if even f then f else f + 1)"

text \<open>
  Rounding to a binary format with \<open>p\<close> fraction bits, exponents from \<open>- down\<close> to
  \<open>up - 1\<close> and subnormal numbers: \<open>x\<close> is rounded to a multiple of \<open>2^(e - p)\<close>, where
  \<open>e\<close> is its exponent, at least \<open>- down\<close>; a result of magnitude \<open>2^up\<close> or more is an
  infinity.
\<close>

definition round_binary :: "nat \<Rightarrow> nat \<Rightarrow> nat \<Rightarrow> real \<Rightarrow> number" where
  "round_binary p up down x =
     (if x = 0 then Num 0
      else (let e = (if 1 \<le> \<bar>x\<bar> then halvings up \<bar>x\<bar> else doublings down \<bar>x\<bar>);
                q = pow2 (e - int p);
                y = of_int (round_even (x / q)) * q
            in if pow2 (int up) \<le> \<bar>y\<bar>
               then (if 0 < x then PosInfinity else NegInfinity)
               else Num y))"

text \<open>The double nearest to a real: 52 fraction bits, exponents \<open>-1022\<close> to \<open>1023\<close>.\<close>

definition double :: "real \<Rightarrow> number" where
  "double x = round_binary 52 1024 1022 x"

text \<open>A number stored into a \<open>Float32Array\<close>: 23 fraction bits, exponents \<open>-126\<close> to
  \<open>127\<close>.\<close>

fun float32 :: "number \<Rightarrow> number" where
  "float32 (Num a) = round_binary 23 128 126 a"
| "float32 x = x"

declare float32.simps(1) [simp del]

fun js_neg :: "number \<Rightarrow> number" where
  "js_neg (Num a) = Num (- a)"
| "js_neg PosInfinity = NegInfinity"
| "js_neg NegInfinity = PosInfinity"
| "js_neg NaN = NaN"

fun js_add :: "number \<Rightarrow> number \<Rightarrow> number" where
  "js_add NaN _ = NaN"
| "js_add _ NaN = NaN"
| "js_add (Num a) (Num b) = double (a + b)"
| "js_add PosInfinity NegInfinity = NaN"
| "js_add NegInfinity PosInfinity = NaN"
| "js_add PosInfinity _ = PosInfinity"
| "js_add _ PosInfinity = PosInfinity"
| "js_add NegInfinity _ = NegInfinity"
| "js_add _ NegInfinity = NegInfinity"

text \<open>\<open>a - b\<close> is \<open>a + (-b)\<close>: negation is exact, so both round the same real.\<close>

definition js_sub :: "number \<Rightarrow> number \<Rightarrow> number" where
  "js_sub a b = js_add a (js_neg b)"

fun js_mul :: "number \<Rightarrow> number \<Rightarrow> number" where
  "js_mul NaN _ = NaN"
| "js_mul _ NaN = NaN"
| "js_mul (Num a) (Num b) = double (a * b)"
| "js_mul (Num a) PosInfinity =
     (if a = 0 then NaN else if 0 < a then PosInfinity else NegInfinity)"
| "js_mul (Num a) NegInfinity =
     (if a = 0 then NaN else if 0 < a then NegInfinity else PosInfinity)"
| "js_mul PosInfinity (Num b) =
     (if b = 0 then NaN else if 0 < b then PosInfinity else NegInfinity)"
| "js_mul NegInfinity (Num b) =
     (if b = 0 then NaN else if 0 < b then NegInfinity else PosInfinity)"
| "js_mul PosInfinity PosInfinity = PosInfinity"
| "js_mul NegInfinity NegInfinity = PosInfinity"
| "js_mul PosInfinity NegInfinity = NegInfinity"
| "js_mul NegInfinity PosInfinity = NegInfinity"

text \<open>\<open>a / b\<close> for two finite numbers: the only division of the code is between
  pixel counts.\<close>

definition js_div :: "real \<Rightarrow> real \<Rightarrow> number" where
  "js_div a b =
     (if b \<noteq> 0 then double (a / b)
      else if 0 < a then PosInfinity
      else if a < 0 then NegInfinity
      else NaN)"

text \<open>\<open>a <= b\<close>: false as soon as one side is \<open>NaN\<close>.\<close>

fun js_le :: "number \<Rightarrow> number \<Rightarrow> bool" where
  "js_le NaN _ = False"
| "js_le _ NaN = False"
| "js_le (Num a) (Num b) = (a \<le> b)"
| "js_le NegInfinity _ = True"
| "js_le _ PosInfinity = True"
| "js_le PosInfinity _ = False"
| "js_le _ NegInfinity = False"

definition js_ge :: "number \<Rightarrow> number \<Rightarrow> bool" where
  "js_ge a b = js_le b a"

fun Math_floor :: "number \<Rightarrow> number" where
  "Math_floor (Num a) = Num (of_int \<lfloor>a\<rfloor>)"
| "Math_floor x = x"

text \<open>\<open>Math.max(...xs)\<close> of finite numbers: \<open>-Infinity\<close> when there is none.\<close>

fun Math_max :: "real list \<Rightarrow> number" where
  "Math_max [] = NegInfinity"
| "Math_max (x # xs) = (case Math_max xs of Num m \<Rightarrow> Num (max x m) | _ \<Rightarrow> Num x)"

text \<open>\<open>xs.indexOf(v)\<close>: the first index whose element is strictly equal to \<open>v\<close>,
  \<open>-1\<close> when there is none.\<close>

fun indexOf :: "real list \<Rightarrow> number \<Rightarrow> int" where
  "indexOf [] v = - 1"
| "indexOf (x # xs) v =
     (if v = Num x then 0
      else (let i = indexOf xs v in if i < 0 then - 1 else i + 1))"

text \<open>\<open>xs.slice(a, b)\<close> and \<open>xs.slice(a)\<close> for indices \<open>0 \<le> a\<close>: both ends are cut
  at the length of the array.\<close>

definition slice :: "'a list \<Rightarrow> nat \<Rightarrow> nat \<Rightarrow> 'a list" where
  "slice xs a b = take (b - a) (drop a xs)"

definition slice_from :: "'a list \<Rightarrow> nat \<Rightarrow> 'a list" where
  "slice_from xs a = drop a xs"

text \<open>\<open>xs[i]\<close> read as a number: an absent element is \<open>undefined\<close>, which every
  arithmetic operation and comparison of the code treats as \<open>NaN\<close>.\<close>

definition elem_at :: "real list \<Rightarrow> nat \<Rightarrow> number" where
  "elem_at xs i = (if i < length xs then Num (xs ! i) else NaN)"

section \<open>Geometry utilities\<close>

text \<open>A box is the four-element array \<open>[x, y, w, h]\<close>.\<close>

type_synonym box = "number \<times> number \<times> number \<times> number"

text \<open>
  \<^verbatim>\<open>
  const overflowBoxes = (box, maxSize) => {
    box[0] = box[0] >= 0 ? box[0] : 0;
    box[1] = box[1] >= 0 ? box[1] : 0;
    box[2] = box[0] + box[2] <= maxSize ? box[2] : maxSize - box[0];
    box[3] = box[1] + box[3] <= maxSize ? box[3] : maxSize - box[1];
    return box;
  };
  \<close>
  The third and fourth assignment read the already updated \<open>box[0]\<close> and \<open>box[1]\<close>.
\<close>

fun overflowBoxes :: "box \<Rightarrow> number \<Rightarrow> box" where
  "overflowBoxes (b0, b1, b2, b3) maxSize =
     (let b0' = (if js_ge b0 (Num 0) then b0 else Num 0);
          b1' = (if js_ge b1 (Num 0) then b1 else Num 0);
          b2' = (if js_le (js_add b0' b2) maxSize then b2 else js_sub maxSize b0');
          b3' = (if js_le (js_add b1' b3) maxSize then b3 else js_sub maxSize b1')
      in (b0', b1', b2', b3'))"

text \<open>The box of four finite numbers.\<close>

definition finite_box :: "real \<Rightarrow> real \<Rightarrow> real \<Rightarrow> real \<Rightarrow> box" where
  "finite_box x y w h = (Num x, Num y, Num w, Num h)"

text \<open>
  \<open>a % b\<close> on integers: the remainder of the division truncated towards zero, with the
  sign of the dividend (\<open>b\<close> is not 0: the code calls it with the stride).
\<close>

definition js_rem :: "int \<Rightarrow> int \<Rightarrow> int" where
  "js_rem a b = sgn a * (\<bar>a\<bar> mod \<bar>b\<bar>)"

text \<open>
  \<^verbatim>\<open>
  const divStride = (stride, width, height) => {
    if (width % stride !== 0) {
      if (width % stride >= stride / 2) width = (Math.floor(width / stride) + 1) * stride;
      else width = Math.floor(width / stride) * stride;
    }
    if (height % stride !== 0) { ... the same on height ... }
    return [width, height];
  };
  \<close>
  Width and height are the pixel counts of an image matrix and the stride is an integer
  other than 0. \<open>roundStride\<close> is the block that the code writes once for the width and
  once for the height.
\<close>

definition roundStride :: "int \<Rightarrow> int \<Rightarrow> int" where
  "roundStride stride d =
     (if js_rem d stride \<noteq> 0 then
        (if real_of_int (js_rem d stride) \<ge> real_of_int stride / 2
         then (\<lfloor>real_of_int d / real_of_int stride\<rfloor> + 1) * stride
         else \<lfloor>real_of_int d / real_of_int stride\<rfloor> * stride)
      else d)"

definition divStride :: "int \<Rightarrow> int \<Rightarrow> int \<Rightarrow> int \<times> int" where
  "divStride stride width height = (roundStride stride width, roundStride stride height)"

section \<open>Preprocessor\<close>

text \<open>
  An image is read into a matrix of \<open>rows\<close> by \<open>cols\<close> pixels; the pixel values play no
  part in the geometry.
\<close>

record image =
  cols :: int
  rows :: int

text \<open>
  How a pass can fail. The first three come from the libraries that the code calls
  before the inference stages; \<open>RunError\<close> carries the error of an inference stage.
  \<^item> \<open>ImreadError\<close>: \<open>cv.imread\<close> (and \<open>cv.cvtColor\<close>) throw for an image without pixels.
  \<^item> \<open>ResizeError\<close>: \<open>cv.resize\<close> asserts that the target size is not empty, and
    throws for a target with a side of 0.
  \<^item> \<open>TensorSizeError\<close>: \<open>new Tensor(type, data, dims)\<close> throws when the product of
    \<open>dims\<close> is not the length of \<open>data\<close>.
\<close>

datatype 'e failure = ImreadError | ResizeError | TensorSizeError | RunError 'e

text \<open>
  \<^verbatim>\<open>
  const [w, h] = divStride(stride, matC3.cols, matC3.rows);
  cv.resize(matC3, matC3, new cv.Size(w, h));
  const maxSize = Math.max(matC3.rows, matC3.cols);
  \<close>
  After the resize the matrix has \<open>w\<close> columns and \<open>h\<close> rows. \<open>letterbox_maxSize\<close> is the
  local \<open>maxSize\<close> of \<open>preprocessing\<close>, the side of the padded square.
\<close>

definition letterbox_maxSize :: "int \<Rightarrow> image \<Rightarrow> int" where
  "letterbox_maxSize stride source =
     (case divStride stride (cols source) (rows source) of (w, h) \<Rightarrow> max h w)"

text \<open>
  The blob given to the detector: the image it was made of, and its width and height.
  Its buffer \<open>data32F\<close> holds three channels of width times height values.
\<close>

type_synonym blob = "image \<times> nat \<times> nat"

definition data32F_length :: "blob \<Rightarrow> nat" where
  "data32F_length input = (case input of (source, width, height) \<Rightarrow> 3 * width * height)"

text \<open>
  \<^verbatim>\<open>
  const input = cv.blobFromImage(matPad, 1 / 255.0,
    new cv.Size(modelWidth, modelHeight), new cv.Scalar(0, 0, 0), true, false);
  \<close>
  \<open>blobFromImage\<close> keeps the size of the padded square when the size asked for is
  \<open>0 x 0\<close>, and resizes to it otherwise.
\<close>

definition blobFromImage :: "image \<Rightarrow> int \<Rightarrow> nat \<Rightarrow> nat \<Rightarrow> 'e failure + blob" where
  "blobFromImage source maxSize modelWidth modelHeight =
     (if modelWidth = 0 \<and> modelHeight = 0 then Inr (source, nat maxSize, nat maxSize)
      else if modelWidth = 0 \<or> modelHeight = 0 then Inl ResizeError
      else Inr (source, modelWidth, modelHeight))"

text \<open>
  \<^verbatim>\<open>
  const preprocessing = (source, modelWidth, modelHeight, stride = 32) => {
    const mat = cv.imread(source);
    const matC3 = new cv.Mat(mat.rows, mat.cols, cv.CV_8UC3);
    cv.cvtColor(mat, matC3, cv.COLOR_RGBA2BGR);
    const [w, h] = divStride(stride, matC3.cols, matC3.rows);
    cv.resize(matC3, matC3, new cv.Size(w, h));
    const maxSize = Math.max(matC3.rows, matC3.cols);
    const xPad = maxSize - matC3.cols, xRatio = maxSize / matC3.cols;
    const yPad = maxSize - matC3.rows, yRatio = maxSize / matC3.rows;
    ...
    const input = cv.blobFromImage(...);
    ...
    return [input, xRatio, yRatio];
  };
  \<close>
\<close>

definition preprocessing ::
  "image \<Rightarrow> nat \<Rightarrow> nat \<Rightarrow> int \<Rightarrow> 'e failure + (blob \<times> number \<times> number)" where
  "preprocessing source modelWidth modelHeight stride =
     (if cols source \<le> 0 \<or> rows source \<le> 0 then Inl ImreadError
      else
        (case divStride stride (cols source) (rows source) of (w, h) \<Rightarrow>
           if w \<le> 0 \<or> h \<le> 0 then Inl ResizeError
           else
             (let maxSize = letterbox_maxSize stride source;
                  xRatio = js_div (real_of_int maxSize) (real_of_int w);
                  yRatio = js_div (real_of_int maxSize) (real_of_int h)
              in (case blobFromImage source maxSize modelWidth modelHeight of
                    Inl f \<Rightarrow> Inl f
                  | Inr input \<Rightarrow> Inr (input, xRatio, yRatio)))))"

text \<open>The default value of the parameter \<open>stride\<close>.\<close>

definition default_stride :: int where
  "default_stride = 32"

section \<open>Detection decoder\<close>

text \<open>A float32 tensor, and the uint8 tensor of the overlay.\<close>

record tensor =
  dims :: "nat list"
  data :: "real list"

record overlay =
  odims :: "nat list"
  odata :: "8 word list"

text \<open>
  The record pushed on \<open>boxes\<close>. \<open>label\<close> is \<open>labels[label]\<close>, \<open>undefined\<close> (here
  \<open>None\<close>) when the index is not one of the list.
\<close>

record 'c detection =
  label :: "string option"
  probability :: number
  color :: 'c
  bounding :: box

text \<open>
  What \<open>detect.js\<close> imports: the class names of \<open>labels.json\<close> and the palette of
  \<open>renderBox\<close> (\<open>colors.get\<close>, \<open>Colors.hexToRgba\<close>).
\<close>

record 'c modules =
  labels :: "string list"
  colors_get :: "int \<Rightarrow> 'c"
  hexToRgba :: "'c \<Rightarrow> nat \<Rightarrow> number list"

definition numClass :: "('c, 'z) modules_scheme \<Rightarrow> nat" where
  "numClass I = length (labels I)"

definition labels_at :: "string list \<Rightarrow> int \<Rightarrow> string option" where
  "labels_at ls i = (if 0 \<le> i \<and> nat i < length ls then Some (ls ! nat i) else None)"

text \<open>
  \<^verbatim>\<open>
  const data = selected.data.slice(idx * selected.dims[2], (idx + 1) * selected.dims[2]);
  \<close>
  Without a third dimension both ends of the slice are \<open>NaN\<close> and the slice is empty.
\<close>

definition row_data :: "tensor \<Rightarrow> nat \<Rightarrow> real list" where
  "row_data selected idx =
     (if 2 < length (dims selected)
      then slice (data selected) (idx * (dims selected ! 2)) ((idx + 1) * (dims selected ! 2))
      else [])"

text \<open>
  \<^verbatim>\<open>
  const scores = data.slice(4, 4 + numClass);
  const score = Math.max(...scores);
  const label = scores.indexOf(score);
  \<close>
\<close>

definition row_scores :: "nat \<Rightarrow> real list \<Rightarrow> real list" where
  "row_scores n row = slice row 4 (4 + n)"

definition row_score :: "nat \<Rightarrow> real list \<Rightarrow> number" where
  "row_score n row = Math_max (row_scores n row)"

definition row_label :: "nat \<Rightarrow> real list \<Rightarrow> int" where
  "row_label n row = indexOf (row_scores n row) (row_score n row)"

text \<open>
  \<^verbatim>\<open>
  let box = data.slice(0, 4);
  box = overflowBoxes(
    [box[0] - 0.5 * box[2], box[1] - 0.5 * box[3], box[2], box[3]], maxSize);
  \<close>
  \<open>recentered\<close> is the array given to \<open>overflowBoxes\<close>.
\<close>

definition recentered :: "real list \<Rightarrow> box" where
  "recentered b =
     (js_sub (elem_at b 0) (js_mul (Num 0.5) (elem_at b 2)),
      js_sub (elem_at b 1) (js_mul (Num 0.5) (elem_at b 3)),
      elem_at b 2,
      elem_at b 3)"

definition row_box :: "number \<Rightarrow> real list \<Rightarrow> box" where
  "row_box maxSize row = overflowBoxes (recentered (slice row 0 4)) maxSize"

text \<open>
  \<^verbatim>\<open>
  const [x, y, w, h] = overflowBoxes(
    [Math.floor(box[0] * xRatio), Math.floor(box[1] * yRatio),
     Math.floor(box[2] * xRatio), Math.floor(box[3] * yRatio)], maxSize);
  \<close>
  \<open>floor_scale\<close> is the array given to \<open>overflowBoxes\<close>.
\<close>

definition floor_scale :: "number \<Rightarrow> number \<Rightarrow> box \<Rightarrow> box" where
  "floor_scale xRatio yRatio b =
     (case b of (b0, b1, b2, b3) \<Rightarrow>
        (Math_floor (js_mul b0 xRatio),
         Math_floor (js_mul b1 yRatio),
         Math_floor (js_mul b2 xRatio),
         Math_floor (js_mul b3 yRatio)))"

definition upscale :: "number \<Rightarrow> number \<Rightarrow> number \<Rightarrow> box \<Rightarrow> box" where
  "upscale maxSize xRatio yRatio b = overflowBoxes (floor_scale xRatio yRatio b) maxSize"

text \<open>
  \<^verbatim>\<open>
  boxes.push({ label: labels[label], probability: score, color: color,
               bounding: [x, y, w, h] });
  \<close>
\<close>

definition decode_row ::
  "('c, 'z) modules_scheme \<Rightarrow> number \<Rightarrow> number \<Rightarrow> number \<Rightarrow> real list \<Rightarrow> 'c detection" where
  "decode_row I maxSize xRatio yRatio row =
     \<lparr>label = labels_at (labels I) (row_label (numClass I) row),
      probability = row_score (numClass I) row,
      color = colors_get I (row_label (numClass I) row),
      bounding = upscale maxSize xRatio yRatio (row_box maxSize row)\<rparr>"

section \<open>Pipeline coordinator\<close>

text \<open>
  The three inference sessions are outside of the code: each \<open>run\<close> either returns its
  output or fails with an error, which \<open>await\<close> throws out of \<open>detectImage\<close>.
  \<open>net_run\<close> gets the blob and \<open>inputShape\<close>, \<open>nms_run\<close> the detector's first output
  and the configuration tensor, \<open>mask_run\<close> the \<open>detection\<close>, \<open>mask\<close>, \<open>config\<close> and
  \<open>overlay\<close> of the call.
\<close>

type_synonym shape = "nat \<times> nat \<times> nat \<times> nat"

record ('d, 'm, 'e) session =
  net_run :: "blob \<Rightarrow> shape \<Rightarrow> 'e + ('d \<times> 'm)"
  nms_run :: "'d \<Rightarrow> number list \<Rightarrow> 'e + tensor"
  mask_run :: "number list \<Rightarrow> 'm \<Rightarrow> number list \<Rightarrow> overlay \<Rightarrow> 'e + overlay"

definition box_list :: "box \<Rightarrow> number list" where
  "box_list b = (case b of (b0, b1, b2, b3) \<Rightarrow> [b0, b1, b2, b3])"

text \<open>
  \<^verbatim>\<open>
  const mask = new Tensor("float32",
    new Float32Array([...box, ...data.slice(4 + numClass)]));
  const maskConfig = new Tensor("float32",
    new Float32Array([maxSize, x, y, w, h, ...Colors.hexToRgba(color, 120)]));
  \<close>
  Both arrays are stored as 32-bit floats.
\<close>

definition mask_input :: "nat \<Rightarrow> number \<Rightarrow> real list \<Rightarrow> number list" where
  "mask_input n maxSize row =
     map float32 (box_list (row_box maxSize row) @ map Num (slice_from row (4 + n)))"

definition maskConfig :: "('c, 'z) modules_scheme \<Rightarrow> number \<Rightarrow> 'c detection \<Rightarrow> number list" where
  "maskConfig I maxSize d =
     map float32 (maxSize # box_list (bounding d) @ hexToRgba I (color d) 120)"

text \<open>What one pass of the loop body works with.\<close>

record ('c, 'd, 'm, 'e) pass =
  pass_modules :: "'c modules"
  pass_session :: "('d, 'm, 'e) session"
  pass_maxSize :: number
  pass_xRatio :: number
  pass_yRatio :: number
  pass_selected :: tensor
  pass_output1 :: 'm

definition pass_row :: "('c, 'd, 'm, 'e) pass \<Rightarrow> nat \<Rightarrow> real list" where
  "pass_row P idx = row_data (pass_selected P) idx"

definition pass_decode :: "('c, 'd, 'm, 'e) pass \<Rightarrow> nat \<Rightarrow> 'c detection" where
  "pass_decode P idx =
     decode_row (pass_modules P) (pass_maxSize P) (pass_xRatio P) (pass_yRatio P)
       (pass_row P idx)"

text \<open>
  \<^verbatim>\<open>
  const { mask_filter } = await session.mask.run({
    detection: mask, mask: output1, config: maskConfig, overlay: overlay });
  \<close>
\<close>

definition pass_mask :: "('c, 'd, 'm, 'e) pass \<Rightarrow> nat \<Rightarrow> overlay \<Rightarrow> 'e + overlay" where
  "pass_mask P idx ov =
     mask_run (pass_session P)
       (mask_input (numClass (pass_modules P)) (pass_maxSize P) (pass_row P idx))
       (pass_output1 P)
       (maskConfig (pass_modules P) (pass_maxSize P) (pass_decode P idx))
       ov"

text \<open>The number of rows: \<open>idx < selected.dims[1]\<close> is false for every \<open>idx\<close> when the
  tensor has no second dimension.\<close>

definition pass_count :: "('c, 'd, 'm, 'e) pass \<Rightarrow> nat" where
  "pass_count P =
     (if 1 < length (dims (pass_selected P)) then dims (pass_selected P) ! 1 else 0)"

text \<open>
  \<^verbatim>\<open>
  for (let idx = 0; idx < selected.dims[1]; idx++) {
    ...
    boxes.push({...});
    ...
    const { mask_filter } = await session.mask.run({...});
    overlay = mask_filter;
  }
  \<close>
  The state of the loop is \<open>boxes\<close> and \<open>overlay\<close>; a failing \<open>run\<close> ends it.
\<close>

function rows_loop ::
  "('c, 'd, 'm, 'e) pass \<Rightarrow> nat \<Rightarrow> 'c detection list \<times> overlay
     \<Rightarrow> 'e + ('c detection list \<times> overlay)" where
  "rows_loop P idx (boxes, ov) =
     (if idx < pass_count P then
        (case pass_mask P idx ov of
           Inl e \<Rightarrow> Inl e
         | Inr mask_filter \<Rightarrow> rows_loop P (Suc idx) (boxes @ [pass_decode P idx], mask_filter))
      else Inr (boxes, ov))"
  by pat_completeness auto
termination
  by (relation "measure (\<lambda>(P, idx, st). pass_count P - idx)") auto

declare rows_loop.simps [simp del]

text \<open>
  \<^verbatim>\<open>
  let overlay = new Tensor("uint8", new Uint8Array(modelHeight * modelWidth * 4),
                           [modelHeight, modelWidth, 4]);
  \<close>
\<close>

definition new_overlay :: "nat \<Rightarrow> nat \<Rightarrow> overlay" where
  "new_overlay modelWidth modelHeight =
     \<lparr>odims = [modelHeight, modelWidth, 4],
      odata = replicate (modelHeight * modelWidth * 4) 0\<rparr>"

text \<open>
  \<^verbatim>\<open>
  const [modelWidth, modelHeight] = inputShape.slice(2);
  const maxSize = Math.max(modelWidth, modelHeight); // max size in input model
  \<close>
  \<open>inputShape\<close> is \<open>[batch, channels, width, height]\<close>.
\<close>

definition detect_maxSize :: "shape \<Rightarrow> nat" where
  "detect_maxSize inputShape =
     (case inputShape of (batch, channels, modelWidth, modelHeight) \<Rightarrow>
        max modelWidth modelHeight)"

text \<open>
  \<^verbatim>\<open>
  const config = new Tensor("float32",
    new Float32Array([numClass, topk, iouThreshold, scoreThreshold]));
  \<close>
\<close>

definition nms_config :: "('c, 'z) modules_scheme \<Rightarrow> real \<Rightarrow> real \<Rightarrow> real \<Rightarrow> number list" where
  "nms_config I topk iouThreshold scoreThreshold =
     map float32 [Num (real (numClass I)), Num topk, Num iouThreshold, Num scoreThreshold]"

text \<open>
  \<^verbatim>\<open>
  const tensor = new Tensor("float32", input.data32F, inputShape);
  \<close>
  The constructor throws unless the product of \<open>inputShape\<close> is the length of the
  blob's buffer.
\<close>

definition tensor_fits :: "blob \<Rightarrow> shape \<Rightarrow> bool" where
  "tensor_fits input inputShape =
     (case inputShape of (batch, channels, modelWidth, modelHeight) \<Rightarrow>
        batch * channels * modelWidth * modelHeight = data32F_length input)"

text \<open>
  \<open>detectImage\<close>: preprocess, build the input tensor, run the detector, run the
  selector, loop over the selected rows. The result is what the code then draws: the
  list \<open>boxes\<close> handed to \<open>renderBoxes\<close> and the overlay put on the canvas. The drawing
  itself (the canvas, the image made of the overlay, \<open>renderBoxes\<close>) is not modelled.
\<close>

definition detectImage ::
  "'c modules \<Rightarrow> image \<Rightarrow> ('d, 'm, 'e) session \<Rightarrow> real \<Rightarrow> real \<Rightarrow> real \<Rightarrow> shape
     \<Rightarrow> 'e failure + ('c detection list \<times> overlay)" where
  "detectImage I source ses topk iouThreshold scoreThreshold inputShape =
     (case inputShape of (batch, channels, modelWidth, modelHeight) \<Rightarrow>
        (case preprocessing source modelWidth modelHeight default_stride of
           Inl f \<Rightarrow> Inl f
         | Inr (input, xRatio, yRatio) \<Rightarrow>
             if \<not> tensor_fits input inputShape then Inl TensorSizeError
             else
               (case net_run ses input inputShape of
                  Inl e \<Rightarrow> Inl (RunError e)
                | Inr (output0, output1) \<Rightarrow>
                    (case nms_run ses output0
                            (nms_config I topk iouThreshold scoreThreshold) of
                       Inl e \<Rightarrow> Inl (RunError e)
                     | Inr selected \<Rightarrow>
                         (case rows_loop
                                 \<lparr>pass_modules = I, pass_session = ses,
                                  pass_maxSize = Num (real (detect_maxSize inputShape)),
                                  pass_xRatio = xRatio, pass_yRatio = yRatio,
                                  pass_selected = selected, pass_output1 = output1\<rparr>
                                 0
                                 ([], new_overlay modelWidth modelHeight) of
                            Inl e \<Rightarrow> Inl (RunError e)
                          | Inr result \<Rightarrow> Inr result)))))"

section \<open>The specification's formulations\<close>



text \<open>
  The overlay threaded through the mask-generation calls of the rows \<open>is\<close>, one after the
  other: each call gets the overlay that the call before it returned.
\<close>

fun thread_masks :: "('c, 'd, 'm, 'e) pass \<Rightarrow> nat list \<Rightarrow> overlay \<Rightarrow> 'e + overlay" where
  "thread_masks P [] ov = Inr ov"
| "thread_masks P (i # is) ov =
     (case pass_mask P i ov of Inl e \<Rightarrow> Inl e | Inr ov' \<Rightarrow> thread_masks P is ov')"

section \<open>A stubbed pass\<close>

text \<open>
  Two class names, a palette that gives the class index as colour, and sessions that
  always succeed: the detector returns nothing of interest, the selector returns a
  given tensor, and the mask generator appends the upscaled \<open>x\<close> of its configuration
  (one byte, the integer 1 when it is not a byte) to the overlay it is given.
\<close>

definition stub_modules :: "int modules" where
  "stub_modules =
     \<lparr>labels = [''person'', ''car''],
      colors_get = (\<lambda>i. i),
      hexToRgba = (\<lambda>c alpha. [Num 0, Num 0, Num 0, Num (real alpha)])\<rparr>"

definition stub_session :: "tensor \<Rightarrow> (unit, unit, unit) session" where
  "stub_session selected =
     \<lparr>net_run = (\<lambda>input inputShape. Inr ((), ())),
      nms_run = (\<lambda>detection config. Inr selected),
      mask_run = (\<lambda>detection mask config ov.
         Inr (ov\<lparr>odata := odata ov @
                [case config of maxSize # Num x # rest \<Rightarrow> of_int \<lfloor>x\<rfloor> | _ \<Rightarrow> 1]\<rparr>))\<rparr>"

text \<open>The loop's pass over a given selected tensor, for a 640 by 640 model input and
  ratios 1.\<close>

definition stub_pass :: "tensor \<Rightarrow> (int, unit, unit, unit) pass" where
  "stub_pass selected =
     \<lparr>pass_modules = stub_modules, pass_session = stub_session selected,
      pass_maxSize = Num 640, pass_xRatio = Num 1, pass_yRatio = Num 1,
      pass_selected = selected, pass_output1 = ()\<rparr>"

text \<open>
  Sessions for a whole pass: as \<open>stub_session\<close>, but the mask generator writes the
  byte into the first element of the overlay, which keeps its size, as the image made
  of the overlay after the loop needs it.
\<close>

definition paint_session :: "tensor \<Rightarrow> (unit, unit, unit) session" where
  "paint_session selected =
     \<lparr>net_run = (\<lambda>input inputShape. Inr ((), ())),
      nms_run = (\<lambda>detection config. Inr selected),
      mask_run = (\<lambda>detection mask config ov.
         Inr (ov\<lparr>odata := (odata ov)
                [0 := (case config of maxSize # Num x # rest \<Rightarrow> of_int \<lfloor>x\<rfloor> | _ \<Rightarrow> 1)]\<rparr>))\<rparr>"

text \<open>The doubles nearest to 0.3, 0.7 and 0.9.\<close>

definition d03 :: real where "d03 = 5404319552844595 / 2 ^ 54"
definition d07 :: real where "d07 = 3152519739159347 / 2 ^ 52"
definition d09 :: real where "d09 = 8106479329266893 / 2 ^ 53"

section \<open>Properties of the rounding\<close>

lemma halvings_nonneg: "0 \<le> halvings n a"
proof (induction n a rule: halvings.induct)
  case (1 n a)
  then show ?case by (subst halvings.simps) auto
qed

lemma halvings_le: "a < 2 ^ Suc k \<Longrightarrow> halvings n a \<le> int k"
proof (induction k arbitrary: n a)
  case 0
  then show ?case by (subst halvings.simps) simp
next
  case (Suc k)
  show ?case
  proof (cases "0 < n \<and> 2 \<le> a")
    case True
    have "a / 2 < 2 ^ Suc k" using Suc.prems by simp
    from Suc.IH [OF this, of "n - 1"] True show ?thesis
      by (subst halvings.simps) simp
  next
    case False
    then show ?thesis by (subst halvings.simps) auto
  qed
qed

lemma round_even_of_int: "round_even (of_int j) = j"
  by (simp add: round_even_def)

lemma round_binary_eq:
  assumes "x \<noteq> 0"
    and "q = pow2 ((if 1 \<le> \<bar>x\<bar> then halvings up \<bar>x\<bar> else doublings down \<bar>x\<bar>) - int p)"
    and "y = of_int (round_even (x / q)) * q"
    and "\<not> pow2 (int up) \<le> \<bar>y\<bar>"
  shows "round_binary p up down x = Num y"
  using assms by (simp add: round_binary_def Let_def)

lemma round_binary_of_int:
  assumes "\<bar>k\<bar> < 2 ^ Suc p" and "Suc p \<le> up"
  shows "round_binary p up down (of_int k) = Num (of_int k)"
proof (cases "k = 0")
  case True
  then show ?thesis by (simp add: round_binary_def)
next
  case False
  define a :: real where "a = \<bar>of_int k\<bar>"
  define e where "e = halvings up a"
  define j where "j = nat (int p - e)"
  have a1: "1 \<le> a" using False by (simp add: a_def)
  have lt: "a < 2 ^ Suc p"
  proof -
    have "real_of_int \<bar>k\<bar> < real_of_int (2 ^ Suc p)"
      using assms(1) by (simp only: of_int_less_iff)
    then show ?thesis by (simp add: a_def)
  qed
  then have e_le: "e \<le> int p" unfolding e_def by (rule halvings_le)
  have q: "1 / 2 ^ j = pow2 ((if 1 \<le> \<bar>real_of_int k\<bar> then halvings up \<bar>real_of_int k\<bar>
             else doublings down \<bar>real_of_int k\<bar>) - int p)"
    using e_le a1 by (simp add: pow2_def j_def a_def e_def)
  have t: "real_of_int k / (1 / 2 ^ j) = of_int (k * 2 ^ j)" by simp
  have y: "real_of_int k = of_int (round_even (real_of_int k / (1 / 2 ^ j))) * (1 / 2 ^ j)"
    unfolding t round_even_of_int by simp
  have "(2::real) ^ Suc p \<le> 2 ^ up" using assms(2) by (intro power_increasing) simp_all
  with lt have big: "\<not> pow2 (int up) \<le> \<bar>real_of_int k\<bar>"
    by (simp add: pow2_def a_def)
  show ?thesis
    by (rule round_binary_eq [OF _ q y big]) (use False in simp)
qed

lemma double_of_int: "\<bar>k\<bar> < 2 ^ 53 \<Longrightarrow> double (of_int k) = Num (of_int k)"
  unfolding double_def by (rule round_binary_of_int) simp_all

lemma double_numeral [simp]: "numeral n < (2 :: int) ^ 53 \<Longrightarrow> double (numeral n) = Num (numeral n)"
  using double_of_int [of "numeral n"] by simp

lemma double_neg_numeral [simp]:
  "numeral n < (2 :: int) ^ 53 \<Longrightarrow> double (- numeral n) = Num (- numeral n)"
  using double_of_int [of "- numeral n"] by simp

lemma double_0 [simp]: "double 0 = Num 0"
  by (simp add: double_def round_binary_def)

lemma double_1 [simp]: "double 1 = Num 1"
  using double_of_int [of 1] by simp


lemma float32_of_int: "\<bar>k\<bar> < 2 ^ 24 \<Longrightarrow> float32 (Num (of_int k)) = Num (of_int k)"
  by (simp add: float32.simps(1) round_binary_of_int)

lemma float32_numeral [simp]:
  "numeral n < (2 :: int) ^ 24 \<Longrightarrow> float32 (Num (numeral n)) = Num (numeral n)"
  using float32_of_int [of "numeral n"] by simp

lemma float32_0 [simp]: "float32 (Num 0) = Num 0"
  by (simp add: float32.simps(1) round_binary_def)

lemma float32_1 [simp]: "float32 (Num 1) = Num 1"
  using float32_of_int [of 1] by simp

lemma double_add_int:
  "\<bar>a + b\<bar> < 2 ^ 53 \<Longrightarrow> double (of_int a + of_int b) = Num (of_int a + of_int b)"
  using double_of_int [of "a + b"] by simp

lemma double_diff_int:
  "\<bar>a - b\<bar> < 2 ^ 53 \<Longrightarrow> double (of_int a - of_int b) = Num (of_int a - of_int b)"
  using double_of_int [of "a - b"] by simp

lemmas double_eval =
  double_def round_binary_def round_even_def pow2_def Let_def halvings.simps doublings.simps

section \<open>Properties of the geometry utilities\<close>

lemma js_ge_clamp: "js_ge (if js_ge a (Num 0) then a else Num 0) (Num 0)"
  by (simp add: js_ge_def)

text \<open>
  C7. \<open>overflowBoxes\<close> (the specification's \<open>clipBox\<close>) is idempotent: for every box and
  every bound \<open>m\<close>, clipping an already clipped box returns it unchanged. This holds for
  all numbers, \<open>NaN\<close> and the infinities included.
\<close>

theorem overflowBoxes_idempotent:
  "overflowBoxes (overflowBoxes b m) m = overflowBoxes b m"
  by (cases b) (simp add: Let_def js_ge_clamp)

lemma overflowBoxes_Num:
  "overflowBoxes (Num x, Num y, Num w, Num h) (Num m) =
     (Num (max x 0), Num (max y 0),
      if js_le (double (max x 0 + w)) (Num m) then Num w else double (m - max x 0),
      if js_le (double (max y 0 + h)) (Num m) then Num h else double (m - max y 0))"
  by (simp add: js_ge_def js_sub_def Let_def max_def)

lemma overflowBoxes_exact:
  assumes "double (max x 0 + w) = Num (max x 0 + w)"
    and "double (m - max x 0) = Num (m - max x 0)"
    and "double (max y 0 + h) = Num (max y 0 + h)"
    and "double (m - max y 0) = Num (m - max y 0)"
  shows "\<exists>x' y' w' h'. overflowBoxes (finite_box x y w h) (Num m) = finite_box x' y' w' h'
     \<and> 0 \<le> x' \<and> 0 \<le> y' \<and> x' + w' \<le> m \<and> y' + h' \<le> m"
  unfolding finite_box_def overflowBoxes_Num assms by auto

lemma max_of_int_0: "max (real_of_int X) 0 = of_int (max X 0)"
  by (simp add: max_def)

lemma overflowBoxes_int:
  assumes "\<bar>X\<bar> < 2 ^ 52" "\<bar>Y\<bar> < 2 ^ 52" "\<bar>W\<bar> < 2 ^ 52" "\<bar>H\<bar> < 2 ^ 52" "\<bar>M\<bar> < 2 ^ 52"
  shows "\<exists>x' y' w' h'.
       overflowBoxes (finite_box (of_int X) (of_int Y) (of_int W) (of_int H)) (Num (of_int M))
         = finite_box x' y' w' h'
     \<and> 0 \<le> x' \<and> 0 \<le> y' \<and> x' + w' \<le> of_int M \<and> y' + h' \<le> of_int M"
proof (rule overflowBoxes_exact)
  have p: "(2::int) ^ 53 = 2 ^ 52 + 2 ^ 52" by simp
  have xw: "\<bar>max X 0 + W\<bar> < 2 ^ 53" and mx: "\<bar>M - max X 0\<bar> < 2 ^ 53"
    and yh: "\<bar>max Y 0 + H\<bar> < 2 ^ 53" and my: "\<bar>M - max Y 0\<bar> < 2 ^ 53"
    unfolding p using assms by linarith+
  show "double (max (real_of_int X) 0 + of_int W) = Num (max (real_of_int X) 0 + of_int W)"
    unfolding max_of_int_0 by (rule double_add_int [OF xw])
  show "double (of_int M - max (real_of_int X) 0) = Num (of_int M - max (real_of_int X) 0)"
    unfolding max_of_int_0 by (rule double_diff_int [OF mx])
  show "double (max (real_of_int Y) 0 + of_int H) = Num (max (real_of_int Y) 0 + of_int H)"
    unfolding max_of_int_0 by (rule double_add_int [OF yh])
  show "double (of_int M - max (real_of_int Y) 0) = Num (of_int M - max (real_of_int Y) 0)"
    unfolding max_of_int_0 by (rule double_diff_int [OF my])
qed

text \<open>
  C2 as the specification states it: \<open>x' + w' \<le> m\<close> for every box and every bound. It
  fails by the rounding of doubles: for the box \<open>[0.3, 0, 0.7, 0]\<close> and the bound
  \<open>0.9\<close> the sum \<open>0.3 + 0.7\<close> is above the bound, so the width becomes \<open>0.9 - 0.3\<close>,
  which is rounded up to \<open>0.6000000000000001\<close>; added to \<open>0.3\<close> this is more than
  \<open>0.9\<close>, as a real and as the double \<open>0.9000000000000001\<close> that the code computes.
\<close>

theorem overflowBoxes_rounding_exceeds:
  "overflowBoxes (finite_box d03 0 d07 0) (Num d09)
     = finite_box d03 0 (5404319552844596 / 2 ^ 53) 0
   \<and> \<not> d03 + 5404319552844596 / 2 ^ 53 \<le> d09
   \<and> js_add (Num d03) (Num (5404319552844596 / 2 ^ 53)) = Num (8106479329266894 / 2 ^ 53)
   \<and> \<not> js_le (Num (8106479329266894 / 2 ^ 53)) (Num d09)"
  by (simp add: overflowBoxes_Num finite_box_def d03_def d07_def d09_def double_eval
      del: overflowBoxes.simps)

text \<open>
  C2, amended. For every box \<open>[x, y, w, h]\<close> of finite numbers and every finite bound
  \<open>m\<close>, the box \<open>[x', y', w', h']\<close> returned by \<open>overflowBoxes\<close> has \<open>0 \<le> x'\<close> and
  \<open>0 \<le> y'\<close>; it has \<open>x' + w' \<le> m\<close> and \<open>y' + h' \<le> m\<close> whenever the sums and
  differences that the clip computes, \<open>x' + w\<close>, \<open>m - x'\<close>, \<open>y' + h\<close> and \<open>m - y'\<close>, are
  doubles, that is, are computed without rounding. They are for every box and bound of
  integers below \<open>2^52\<close> in magnitude, as the clip after the upscale gets them.
\<close>

theorem overflowBoxes_in_frame:
  "(\<exists>x' y' w' h'. overflowBoxes (finite_box x y w h) (Num m) = (Num x', Num y', w', h')
      \<and> 0 \<le> x' \<and> 0 \<le> y')
   \<and> (double (max x 0 + w) = Num (max x 0 + w) \<and> double (m - max x 0) = Num (m - max x 0)
      \<and> double (max y 0 + h) = Num (max y 0 + h) \<and> double (m - max y 0) = Num (m - max y 0)
      \<longrightarrow> (\<exists>x' y' w' h'. overflowBoxes (finite_box x y w h) (Num m) = finite_box x' y' w' h'
             \<and> 0 \<le> x' \<and> 0 \<le> y' \<and> x' + w' \<le> m \<and> y' + h' \<le> m))
   \<and> (\<bar>X\<bar> < 2 ^ 52 \<and> \<bar>Y\<bar> < 2 ^ 52 \<and> \<bar>W\<bar> < 2 ^ 52 \<and> \<bar>H\<bar> < 2 ^ 52 \<and> \<bar>M\<bar> < 2 ^ 52
      \<longrightarrow> (\<exists>x' y' w' h'.
             overflowBoxes (finite_box (of_int X) (of_int Y) (of_int W) (of_int H))
               (Num (of_int M)) = finite_box x' y' w' h'
             \<and> 0 \<le> x' \<and> 0 \<le> y' \<and> x' + w' \<le> of_int M \<and> y' + h' \<le> of_int M))"
proof (intro conjI impI)
  show "\<exists>x' y' w' h'. overflowBoxes (finite_box x y w h) (Num m) = (Num x', Num y', w', h')
      \<and> 0 \<le> x' \<and> 0 \<le> y'"
    unfolding finite_box_def overflowBoxes_Num by simp
next
  assume "double (max x 0 + w) = Num (max x 0 + w) \<and> double (m - max x 0) = Num (m - max x 0)
      \<and> double (max y 0 + h) = Num (max y 0 + h) \<and> double (m - max y 0) = Num (m - max y 0)"
  then show "\<exists>x' y' w' h'. overflowBoxes (finite_box x y w h) (Num m) = finite_box x' y' w' h'
             \<and> 0 \<le> x' \<and> 0 \<le> y' \<and> x' + w' \<le> m \<and> y' + h' \<le> m"
    by (intro overflowBoxes_exact) simp_all
next
  assume "\<bar>X\<bar> < 2 ^ 52 \<and> \<bar>Y\<bar> < 2 ^ 52 \<and> \<bar>W\<bar> < 2 ^ 52 \<and> \<bar>H\<bar> < 2 ^ 52 \<and> \<bar>M\<bar> < 2 ^ 52"
  then show "\<exists>x' y' w' h'.
             overflowBoxes (finite_box (of_int X) (of_int Y) (of_int W) (of_int H))
               (Num (of_int M)) = finite_box x' y' w' h'
             \<and> 0 \<le> x' \<and> 0 \<le> y' \<and> x' + w' \<le> of_int M \<and> y' + h' \<le> of_int M"
    by (intro overflowBoxes_int) simp_all
qed

theorem overflowBoxes_in_frame_witness:
  "double (max (- 5) 0 + 700) = Num (max (- 5) 0 + 700)
   \<and> double (640 - max (- 5) 0) = Num (640 - max (- 5) 0)
   \<and> double (max 600 0 + 100) = Num (max 600 0 + 100)
   \<and> double (640 - max 600 0) = Num (640 - max 600 0)
   \<and> \<bar>- 5 :: int\<bar> < 2 ^ 52 \<and> \<bar>600 :: int\<bar> < 2 ^ 52 \<and> \<bar>700 :: int\<bar> < 2 ^ 52
   \<and> \<bar>100 :: int\<bar> < 2 ^ 52 \<and> \<bar>640 :: int\<bar> < 2 ^ 52
   \<and> overflowBoxes (finite_box (- 5) 600 700 100) (Num 640) = finite_box 0 600 640 40"
  using overflowBoxes_in_frame [of "- 5" 600 700 100 640 "- 5" 600 700 100 640]
  by (simp add: overflowBoxes_Num finite_box_def del: overflowBoxes.simps)

text \<open>
  C5. The width returned by \<open>overflowBoxes\<close> is negative for a box whose left edge lies
  beyond the bound: \<open>overflowBoxes([650, 75, 20, 50], 640)\<close> returns
  \<open>[650, 75, -10, 50]\<close>. The row \<open>[660, 100, 20, 50, 0.9, 0.1]\<close> decoded with
  \<open>maxSize = 640\<close> and ratios 1 is recentred to that box, and both clips leave
  \<open>x = 650\<close> and the width \<open>-10\<close>.
\<close>

theorem overflowBoxes_negative_width:
  "overflowBoxes (finite_box 650 75 20 50) (Num 640) = finite_box 650 75 (- 10) 50
   \<and> bounding (decode_row stub_modules (Num 640) (Num 1) (Num 1) [660, 100, 20, 50, 9 / 10, 1 / 10])
       = finite_box 650 75 (- 10) 50
   \<and> \<not> (0 :: real) \<le> - 10 \<and> \<not> (650 :: real) \<le> 640"
  by (simp add: overflowBoxes_Num decode_row_def upscale_def row_box_def recentered_def
      floor_scale_def elem_at_def slice_def js_sub_def finite_box_def
      del: overflowBoxes.simps)

section \<open>Properties of the stride rounding\<close>

lemma js_rem_0_iff: "0 < s \<Longrightarrow> js_rem d s = 0 \<longleftrightarrow> s dvd d"
  by (auto simp: js_rem_def sgn_if mod_eq_0_iff_dvd)

lemma roundStride_cases:
  assumes "0 < s"
  shows "roundStride s d =
     (if real_of_int s / 2 \<le> real_of_int (js_rem d s) then (d div s + 1) * s else (d div s) * s)"
  using assms
  by (auto simp: roundStride_def floor_divide_of_int_eq js_rem_0_iff) (auto simp: js_rem_def sgn_if)

lemma roundStride_dvd: "0 < s \<Longrightarrow> s dvd roundStride s d"
  by (simp add: roundStride_cases)

lemma js_rem_pos_mod:
  assumes "0 < s" and "0 < js_rem d s"
  shows "js_rem d s = d mod s"
proof (cases "0 < d")
  case True
  then show ?thesis using assms(1) by (simp add: js_rem_def)
next
  case False
  then have "sgn d \<le> 0" by (simp add: sgn_if)
  moreover have "0 \<le> \<bar>d\<bar> mod \<bar>s\<bar>" using assms(1) by simp
  ultimately have "js_rem d s \<le> 0"
    unfolding js_rem_def by (rule mult_nonpos_nonneg)
  then show ?thesis using assms(2) by simp
qed

lemma roundStride_near:
  assumes "0 < s"
  shows "\<bar>roundStride s d - d\<bar> < s"
proof -
  define q where "q = d div s"
  define r where "r = d mod s"
  have lo: "0 \<le> r" and hi: "r < s" using assms by (simp_all add: r_def)
  have "d = q * s + r" by (simp add: q_def r_def)
  then have up: "(q + 1) * s - d = s - r" and down: "q * s - d = - r"
    by (simp_all add: algebra_simps)
  have rs: "roundStride s d =
     (if real_of_int s / 2 \<le> real_of_int (js_rem d s) then (q + 1) * s else q * s)"
    unfolding q_def by (rule roundStride_cases [OF assms])
  show ?thesis
  proof (cases "real_of_int s / 2 \<le> real_of_int (js_rem d s)")
    case True
    then have "0 < js_rem d s" using assms by linarith
    then have "0 < r" using js_rem_pos_mod [OF assms] by (simp add: r_def)
    moreover have "roundStride s d - d = s - r" using rs True up by simp
    ultimately show ?thesis using hi by simp
  next
    case False
    then have "roundStride s d - d = - r" using rs down by simp
    then show ?thesis using lo hi by simp
  qed
qed

text \<open>
  C3. For every width, height and stride \<open>s > 0\<close>, both dimensions returned by
  \<open>divStride\<close> are divisible by \<open>s\<close> and differ from the dimension given by less than
  \<open>s\<close>; a dimension whose remainder \<open>d % s\<close> is at least \<open>s / 2\<close> is rounded up to the
  next multiple of \<open>s\<close>, every other one is rounded down (\<open>d div s\<close> is the quotient
  rounded down).
\<close>

theorem divStride_nearest_multiple:
  assumes "0 < s"
  shows "(case divStride s width height of (w, h) \<Rightarrow>
           s dvd w \<and> s dvd h \<and> \<bar>w - width\<bar> < s \<and> \<bar>h - height\<bar> < s
           \<and> w = (if real_of_int s / 2 \<le> real_of_int (js_rem width s)
                   then (width div s + 1) * s else (width div s) * s)
           \<and> h = (if real_of_int s / 2 \<le> real_of_int (js_rem height s)
                   then (height div s + 1) * s else (height div s) * s))"
  using assms roundStride_dvd [of s] roundStride_near [of s] roundStride_cases [of s]
  by (simp add: divStride_def)

theorem divStride_nearest_multiple_witness:
  "(0 :: int) < 32 \<and> divStride 32 100 50 = (96, 64)
   \<and> (case divStride 32 100 50 of (w, h) \<Rightarrow>
        32 dvd w \<and> 32 dvd h \<and> \<bar>w - 100\<bar> < 32 \<and> \<bar>h - 50\<bar> < 32
        \<and> w = (if real_of_int 32 / 2 \<le> real_of_int (js_rem 100 32)
                then (100 div 32 + 1) * 32 else (100 div 32) * 32)
        \<and> h = (if real_of_int 32 / 2 \<le> real_of_int (js_rem 50 32)
                then (50 div 32 + 1) * 32 else (50 div 32) * 32))"
  using divStride_nearest_multiple [of 32 100 50]
  by (simp add: divStride_def roundStride_def js_rem_def)

lemma js_rem_small: "0 < d \<Longrightarrow> d < s \<Longrightarrow> js_rem d s = d"
  by (simp add: js_rem_def)

lemma roundStride_small:
  assumes "0 < d" and "real_of_int d < real_of_int s / 2"
  shows "roundStride s d = 0"
proof -
  have "d < s" using assms by linarith
  then show ?thesis
    using assms by (simp add: roundStride_def js_rem_small floor_divide_of_int_eq)
qed

text \<open>
  C10 as the specification states it: for a dimension \<open>0 < d < stride / 2\<close> the ratio
  is computed by a division by zero. For a 15 by 100 image \<open>divStride\<close> gives the
  width 0, but \<open>cv.resize\<close> is called with that size before the ratios are computed
  and throws: \<open>preprocessing\<close> returns no ratio, and the pass fails.
\<close>

theorem small_dimension_fails_in_resize:
  "divStride 32 15 100 = (0, 96)
   \<and> preprocessing \<lparr>cols = 15, rows = 100\<rparr> 640 640 default_stride
       = (Inl ResizeError :: unit failure + blob \<times> number \<times> number)
   \<and> detectImage stub_modules \<lparr>cols = 15, rows = 100\<rparr>
        (paint_session \<lparr>dims = [1, 0, 38], data = []\<rparr>) 100 (45 / 100) (25 / 100)
        (1, 3, 640, 640)
       = Inl ResizeError"
  by (simp add: divStride_def roundStride_def js_rem_def preprocessing_def default_stride_def
      detectImage_def)

text \<open>
  C10, amended. A dimension \<open>d\<close> with \<open>0 < d < stride / 2\<close> (1 to 15 pixels for the
  stride 32) is rounded down to 0 by \<open>divStride\<close>. \<open>preprocessing\<close> has no guard of its
  own, but it never divides by this 0: the resize to the empty size fails first, and
  with it the pass.
\<close>

theorem divStride_small_dimension:
  assumes "0 < d" and "real_of_int d < real_of_int s / 2"
  shows "fst (divStride s d height) = 0
    \<and> snd (divStride s width d) = 0
    \<and> (0 < height \<longrightarrow>
         preprocessing \<lparr>cols = d, rows = height\<rparr> mw mh s
           = (Inl ResizeError :: 'e failure + blob \<times> number \<times> number))
    \<and> (0 < width \<longrightarrow>
         preprocessing \<lparr>cols = width, rows = d\<rparr> mw mh s
           = (Inl ResizeError :: 'e failure + blob \<times> number \<times> number))"
  using roundStride_small [OF assms] assms(1)
  by (simp add: divStride_def preprocessing_def)

theorem divStride_small_dimension_witness:
  "(0 :: int) < 15 \<and> real_of_int 15 < real_of_int 32 / 2
   \<and> (0 :: int) < 100
   \<and> fst (divStride 32 15 100) = 0 \<and> snd (divStride 32 100 15) = 0
   \<and> preprocessing \<lparr>cols = 15, rows = 100\<rparr> 640 640 32
       = (Inl ResizeError :: unit failure + blob \<times> number \<times> number)
   \<and> preprocessing \<lparr>cols = 100, rows = 15\<rparr> 640 640 32
       = (Inl ResizeError :: unit failure + blob \<times> number \<times> number)"
  using divStride_small_dimension [of 15 32 100 100 640 640, where ?'e = unit]
  by simp

section \<open>Properties of the detection decoder\<close>









section \<open>Properties of the pipeline coordinator\<close>

lemma rows_loop_thread:
  "rows_loop P idx (boxes, ov) =
     (case thread_masks P [idx..<pass_count P] ov of
        Inl e \<Rightarrow> Inl e
      | Inr ov' \<Rightarrow> Inr (boxes @ map (pass_decode P) [idx..<pass_count P], ov'))"
proof (induction P idx "(boxes, ov)" arbitrary: boxes ov rule: rows_loop.induct)
  case (1 P idx boxes ov)
  show ?case
  proof (cases "idx < pass_count P")
    case True
    then have upt: "[idx..<pass_count P] = idx # [Suc idx..<pass_count P]"
      by (simp add: upt_conv_Cons)
    show ?thesis
    proof (cases "pass_mask P idx ov")
      case (Inl e)
      then show ?thesis using True by (simp add: upt rows_loop.simps [of P idx])
    next
      case (Inr mask_filter)
      then show ?thesis
        using True "1.hyps" [OF True Inr]
        by (simp add: upt rows_loop.simps [of P idx] split: sum.splits)
    qed
  next
    case False
    then show ?thesis by (simp add: rows_loop.simps [of P idx])
  qed
qed

lemma rows_loop_result:
  "rows_loop P 0 ([], ov0) = Inr (boxes, ov) \<longleftrightarrow>
     boxes = map (pass_decode P) [0..<pass_count P] \<and>
     thread_masks P [0..<pass_count P] ov0 = Inr ov"
  by (auto simp: rows_loop_thread split: sum.splits)

lemma row_score_short:
  "length row < 4 + n \<Longrightarrow> row_score n row = Math_max (drop 4 row)"
  by (simp add: row_score_def row_scores_def slice_def)

lemma length_new_overlay [simp]:
  "length (odata (new_overlay modelWidth modelHeight)) = modelHeight * modelWidth * 4"
  by (simp add: new_overlay_def)

lemmas stub_eval =
  detectImage_def preprocessing_def blobFromImage_def data32F_length_def tensor_fits_def
  divStride_def roundStride_def js_rem_def js_div_def
  letterbox_maxSize_def default_stride_def detect_maxSize_def
  stub_session_def paint_session_def stub_modules_def rows_loop_thread pass_count_def
  pass_mask_def pass_decode_def pass_row_def row_data_def maskConfig_def mask_input_def
  box_list_def decode_row_def numClass_def row_label_def row_score_def row_scores_def
  slice_def slice_from_def labels_at_def upscale_def row_box_def recentered_def
  floor_scale_def elem_at_def js_sub_def overflowBoxes_Num finite_box_def stub_pass_def

text \<open>
  C6. Decoding preserves the order of the rows: the loop over a selected-detection
  tensor of \<open>N\<close> rows returns a list of exactly \<open>N\<close> detections whose \<open>i\<close>-th entry
  is decoded from the \<open>i\<close>-th row, and an overlay obtained by threading the overlay
  through the mask-generation calls of the rows \<open>0, ..., N - 1\<close> in this order. It
  returns them exactly when each of these calls succeeds.
\<close>

theorem detections_follow_rows:
  "rows_loop P 0 ([], ov0) = Inr (boxes, ov) \<longleftrightarrow>
     length boxes = pass_count P
     \<and> (\<forall>i<pass_count P. boxes ! i =
           decode_row (pass_modules P) (pass_maxSize P) (pass_xRatio P) (pass_yRatio P)
             (row_data (pass_selected P) i))
     \<and> thread_masks P [0..<pass_count P] ov0 = Inr ov"
  unfolding rows_loop_result
  by (auto simp: list_eq_iff_nth_eq pass_decode_def pass_row_def)

theorem detections_follow_rows_witness:
  "rows_loop
     (stub_pass \<lparr>dims = [1, 2, 6],
                 data = [100, 100, 50, 50, 9 / 10, 1 / 10, 200, 300, 40, 60, 2 / 10, 8 / 10]\<rparr>)
     0 ([], \<lparr>odims = [0, 0, 4], odata = []\<rparr>)
   = Inr ([\<lparr>label = Some ''person'', probability = Num (9 / 10), color = 0,
            bounding = finite_box 75 75 50 50\<rparr>,
           \<lparr>label = Some ''car'', probability = Num (8 / 10), color = 1,
            bounding = finite_box 180 270 40 60\<rparr>],
          \<lparr>odims = [0, 0, 4], odata = [75, 180]\<rparr>)
   \<and> thread_masks
        (stub_pass \<lparr>dims = [1, 2, 6],
                    data = [100, 100, 50, 50, 9 / 10, 1 / 10, 200, 300, 40, 60, 2 / 10, 8 / 10]\<rparr>)
        [0, 1] \<lparr>odims = [0, 0, 4], odata = []\<rparr>
      = Inr \<lparr>odims = [0, 0, 4], odata = [75, 180]\<rparr>"
  using detections_follow_rows
    [of "stub_pass \<lparr>dims = [1, 2, 6],
                 data = [100, 100, 50, 50, 9 / 10, 1 / 10, 200, 300, 40, 60, 2 / 10, 8 / 10]\<rparr>"
        "\<lparr>odims = [0, 0, 4], odata = []\<rparr>"
        "[\<lparr>label = Some ''person'', probability = Num (9 / 10), color = 0,
            bounding = finite_box 75 75 50 50\<rparr>,
           \<lparr>label = Some ''car'', probability = Num (8 / 10), color = 1,
            bounding = finite_box 180 270 40 60\<rparr>]"
        "\<lparr>odims = [0, 0, 4], odata = [75, 180]\<rparr>"]
  by (simp add: stub_eval upt_conv_Cons del: overflowBoxes.simps)

text \<open>
  C4 as the specification states it: the bound of both clips is the side of the
  letterboxed square of \<open>preprocessing\<close>. For a 100 by 100 image and the input shape
  \<open>[1, 3, 640, 640]\<close> that side is 96, the bound of \<open>detectImage\<close> is 640, and the row
  \<open>[100, 100, 50, 50, 0.9, 0.1]\<close> is decoded to the box \<open>[75, 75, 50, 50]\<close>, which a
  clip against 96 would have cut.
\<close>

theorem detectImage_maxSize_not_letterbox:
  "detect_maxSize (1, 3, 640, 640) = 640
   \<and> letterbox_maxSize default_stride \<lparr>cols = 100, rows = 100\<rparr> = 96
   \<and> int (detect_maxSize (1, 3, 640, 640))
        \<noteq> letterbox_maxSize default_stride \<lparr>cols = 100, rows = 100\<rparr>
   \<and> detectImage stub_modules \<lparr>cols = 100, rows = 100\<rparr>
        (paint_session \<lparr>dims = [1, 1, 6], data = [100, 100, 50, 50, 9 / 10, 1 / 10]\<rparr>)
        100 (45 / 100) (25 / 100) (1, 3, 640, 640)
      = Inr ([\<lparr>label = Some ''person'', probability = Num (9 / 10), color = 0,
               bounding = finite_box 75 75 50 50\<rparr>],
             (new_overlay 640 640)\<lparr>odata := (odata (new_overlay 640 640))[0 := 75]\<rparr>)
   \<and> \<not> (75 + 50 \<le> (96 :: real))"
  by (simp add: stub_eval del: overflowBoxes.simps)

text \<open>
  C4, amended. Both clips applied to each decoded detection use the same bound, and
  that bound is \<open>max(modelWidth, modelHeight)\<close> of the input shape given to
  \<open>detectImage\<close>, whatever the image: a pass that returns has one detection for each
  row of the selected tensor, and the box of the \<open>i\<close>-th is \<open>overflowBoxes\<close> with this
  bound of the floored, scaled result of \<open>overflowBoxes\<close> with this bound of the
  recentred first four elements of row \<open>i\<close>.
\<close>

theorem detectImage_clips_with_model_size:
  fixes ses :: "('d, 'm, 'e) session"
  assumes "preprocessing source modelWidth modelHeight default_stride
             = (Inr (input, xRatio, yRatio) :: 'e failure + blob \<times> number \<times> number)"
    and "net_run ses input (batch, channels, modelWidth, modelHeight) = Inr (output0, output1)"
    and "nms_run ses output0 (nms_config I topk iouThreshold scoreThreshold) = Inr selected"
    and "detectImage I source ses topk iouThreshold scoreThreshold
             (batch, channels, modelWidth, modelHeight) = Inr (boxes, ov)"
  shows "length boxes = (if 1 < length (dims selected) then dims selected ! 1 else 0)
    \<and> (\<forall>i<length boxes.
          bounding (boxes ! i) =
            overflowBoxes
              (floor_scale xRatio yRatio
                 (overflowBoxes (recentered (slice (row_data selected i) 0 4))
                    (Num (real (max modelWidth modelHeight)))))
              (Num (real (max modelWidth modelHeight))))"
proof -
  define P where "P = \<lparr>pass_modules = I, pass_session = ses,
      pass_maxSize = Num (real (max modelWidth modelHeight)),
      pass_xRatio = xRatio, pass_yRatio = yRatio,
      pass_selected = selected, pass_output1 = output1\<rparr>"
  from assms(4) have "rows_loop P 0 ([], new_overlay modelWidth modelHeight) = Inr (boxes, ov)"
    by (simp add: detectImage_def assms(1,2,3) detect_maxSize_def P_def
        split: sum.splits prod.splits if_splits)
  then have boxes: "boxes = map (pass_decode P) [0..<pass_count P]"
    by (simp add: rows_loop_result)
  have "length boxes = (if 1 < length (dims selected) then dims selected ! 1 else 0)"
    by (simp add: boxes pass_count_def P_def)
  moreover have "bounding (boxes ! i) =
            overflowBoxes
              (floor_scale xRatio yRatio
                 (overflowBoxes (recentered (slice (row_data selected i) 0 4))
                    (Num (real (max modelWidth modelHeight)))))
              (Num (real (max modelWidth modelHeight)))" if "i < length boxes" for i
    using that
    by (simp add: boxes pass_decode_def pass_row_def decode_row_def upscale_def row_box_def
        P_def del: overflowBoxes.simps)
  ultimately show ?thesis by blast
qed

theorem detectImage_clips_with_model_size_witness:
  "preprocessing \<lparr>cols = 320, rows = 640\<rparr> 640 640 default_stride
     = (Inr ((\<lparr>cols = 320, rows = 640\<rparr>, 640, 640), Num 2, Num 1)
         :: unit failure + blob \<times> number \<times> number)
   \<and> net_run (paint_session \<lparr>dims = [1, 1, 6], data = [100, 100, 50, 50, 9 / 10, 1 / 10]\<rparr>)
        (\<lparr>cols = 320, rows = 640\<rparr>, 640, 640) (1, 3, 640, 640) = Inr ((), ())
   \<and> nms_run (paint_session \<lparr>dims = [1, 1, 6], data = [100, 100, 50, 50, 9 / 10, 1 / 10]\<rparr>)
        () (nms_config stub_modules 100 (45 / 100) (25 / 100))
       = Inr \<lparr>dims = [1, 1, 6], data = [100, 100, 50, 50, 9 / 10, 1 / 10]\<rparr>
   \<and> detectImage stub_modules \<lparr>cols = 320, rows = 640\<rparr>
        (paint_session \<lparr>dims = [1, 1, 6], data = [100, 100, 50, 50, 9 / 10, 1 / 10]\<rparr>)
        100 (45 / 100) (25 / 100) (1, 3, 640, 640)
      = Inr ([\<lparr>label = Some ''person'', probability = Num (9 / 10), color = 0,
               bounding = finite_box 150 75 100 50\<rparr>],
             (new_overlay 640 640)\<lparr>odata := (odata (new_overlay 640 640))[0 := 150]\<rparr>)
   \<and> finite_box 150 75 100 50 =
        overflowBoxes
          (floor_scale (Num 2) (Num 1)
             (overflowBoxes (recentered (slice [100, 100, 50, 50, 9 / 10, 1 / 10] 0 4))
                (Num 640)))
          (Num 640)"
proof -
  let ?sel = "\<lparr>dims = [1, 1, 6], data = [100, 100, 50, 50, 9 / 10, 1 / 10]\<rparr>"
  have p: "preprocessing \<lparr>cols = 320, rows = 640\<rparr> 640 640 default_stride
     = (Inr ((\<lparr>cols = 320, rows = 640\<rparr>, 640, 640), Num 2, Num 1)
         :: unit failure + blob \<times> number \<times> number)"
    by (simp add: stub_eval)
  have n: "net_run (paint_session ?sel) (\<lparr>cols = 320, rows = 640\<rparr>, 640, 640) (1, 3, 640, 640)
       = Inr ((), ())"
    by (simp add: paint_session_def)
  have s: "nms_run (paint_session ?sel) () (nms_config stub_modules 100 (45 / 100) (25 / 100))
       = Inr ?sel"
    by (simp add: paint_session_def)
  have d: "detectImage stub_modules \<lparr>cols = 320, rows = 640\<rparr> (paint_session ?sel)
        100 (45 / 100) (25 / 100) (1, 3, 640, 640)
      = Inr ([\<lparr>label = Some ''person'', probability = Num (9 / 10), color = 0,
               bounding = finite_box 150 75 100 50\<rparr>],
             (new_overlay 640 640)\<lparr>odata := (odata (new_overlay 640 640))[0 := 150]\<rparr>)"
    by (simp add: stub_eval del: overflowBoxes.simps)
  from detectImage_clips_with_model_size [OF p n s d]
  have "finite_box 150 75 100 50 =
        overflowBoxes
          (floor_scale (Num 2) (Num 1)
             (overflowBoxes (recentered (slice [100, 100, 50, 50, 9 / 10, 1 / 10] 0 4))
                (Num 640)))
          (Num 640)"
    by (simp add: row_data_def slice_def del: overflowBoxes.simps)
  with p n s d show ?thesis by (intro conjI)
qed

text \<open>
  C8 as the specification states it: a configuration outside the bounds is rejected
  at entry. \<open>detectImage\<close> called with \<open>topk = 0\<close>, \<open>iouThreshold = 2\<close> and
  \<open>scoreThreshold = -1\<close> runs the pass to its end and returns its (empty) list and
  overlay, also with the batch size 3 (and one channel).
\<close>

theorem detectImage_accepts_invalid_configuration:
  "detectImage stub_modules \<lparr>cols = 640, rows = 640\<rparr>
     (paint_session \<lparr>dims = [1, 0, 38], data = []\<rparr>) 0 2 (- 1) (1, 3, 640, 640)
   = Inr ([], new_overlay 640 640)
   \<and> detectImage stub_modules \<lparr>cols = 640, rows = 640\<rparr>
     (paint_session \<lparr>dims = [1, 0, 38], data = []\<rparr>) 0 2 (- 1) (3, 1, 640, 640)
   = Inr ([], new_overlay 640 640)"
  by (simp add: stub_eval del: overflowBoxes.simps)

text \<open>
  C8, amended. \<open>detectImage\<close> checks none of \<open>topk\<close>, \<open>iouThreshold\<close> and
  \<open>scoreThreshold\<close>: whatever their values, it runs the detector and hands
  \<open>[numClasses, topk, iouThreshold, scoreThreshold]\<close>, stored as 32-bit floats, to the
  selector, and the pass fails or returns as the stages and the loop do. Of
  \<open>inputShape\<close> only the number of elements is checked, by the tensor
  constructor before the first inference call: \<open>batch * channels * width * height\<close>
  must be the length of the blob, which for a width and height other than 0 means
  \<open>batch * channels = 3\<close>.
\<close>

theorem detectImage_config_unchecked:
  fixes ses :: "('d, 'm, 'e) session"
  assumes "preprocessing source modelWidth modelHeight default_stride
             = (Inr (input, xRatio, yRatio) :: 'e failure + blob \<times> number \<times> number)"
  shows "(0 < modelWidth \<and> 0 < modelHeight \<longrightarrow>
            tensor_fits input (batch, channels, modelWidth, modelHeight)
              = (batch * channels = 3))
    \<and> (\<not> tensor_fits input (batch, channels, modelWidth, modelHeight) \<longrightarrow>
          detectImage I source ses topk iouThreshold scoreThreshold
            (batch, channels, modelWidth, modelHeight) = Inl TensorSizeError)
    \<and> (tensor_fits input (batch, channels, modelWidth, modelHeight) \<longrightarrow>
         (\<forall>e. net_run ses input (batch, channels, modelWidth, modelHeight) = Inl e \<longrightarrow>
            detectImage I source ses topk iouThreshold scoreThreshold
              (batch, channels, modelWidth, modelHeight) = Inl (RunError e))
       \<and> (\<forall>output0 output1.
            net_run ses input (batch, channels, modelWidth, modelHeight)
              = Inr (output0, output1) \<longrightarrow>
            (\<forall>e. nms_run ses output0
                    (map float32 [Num (real (numClass I)), Num topk, Num iouThreshold,
                                  Num scoreThreshold]) = Inl e \<longrightarrow>
               detectImage I source ses topk iouThreshold scoreThreshold
                 (batch, channels, modelWidth, modelHeight) = Inl (RunError e))
          \<and> (\<forall>selected.
               nms_run ses output0
                 (map float32 [Num (real (numClass I)), Num topk, Num iouThreshold,
                               Num scoreThreshold]) = Inr selected \<longrightarrow>
               detectImage I source ses topk iouThreshold scoreThreshold
                 (batch, channels, modelWidth, modelHeight)
               = (case rows_loop
                         \<lparr>pass_modules = I, pass_session = ses,
                          pass_maxSize = Num (real (max modelWidth modelHeight)),
                          pass_xRatio = xRatio, pass_yRatio = yRatio,
                          pass_selected = selected, pass_output1 = output1\<rparr>
                         0 ([], new_overlay modelWidth modelHeight) of
                    Inl e \<Rightarrow> Inl (RunError e)
                  | Inr result \<Rightarrow> Inr result))))"
proof (intro conjI impI allI)
  assume "0 < modelWidth \<and> 0 < modelHeight"
  with assms have "input = (source, modelWidth, modelHeight)"
    by (auto simp: preprocessing_def blobFromImage_def Let_def split: if_splits prod.splits)
  then show "tensor_fits input (batch, channels, modelWidth, modelHeight)
              = (batch * channels = 3)"
    using \<open>0 < modelWidth \<and> 0 < modelHeight\<close>
    by (auto simp: tensor_fits_def data32F_length_def)
qed (simp_all add: detectImage_def assms nms_config_def detect_maxSize_def)

theorem detectImage_config_unchecked_witness:
  "preprocessing \<lparr>cols = 640, rows = 480\<rparr> 640 640 default_stride
     = (Inr ((\<lparr>cols = 640, rows = 480\<rparr>, 640, 640), Num 1, double (640 / 480))
         :: unit failure + blob \<times> number \<times> number)
   \<and> (0 :: nat) < 640
   \<and> tensor_fits (\<lparr>cols = 640, rows = 480\<rparr>, 640, 640) (3, 1, 640, 640)
   \<and> \<not> tensor_fits (\<lparr>cols = 640, rows = 480\<rparr>, 640, 640) (7, 3, 640, 640)
   \<and> detectImage stub_modules \<lparr>cols = 640, rows = 480\<rparr>
        (paint_session \<lparr>dims = [1, 0, 38], data = []\<rparr>) 0 2 (- 1) (7, 3, 640, 640)
       = Inl TensorSizeError
   \<and> net_run (paint_session \<lparr>dims = [1, 0, 38], data = []\<rparr>)
        (\<lparr>cols = 640, rows = 480\<rparr>, 640, 640) (3, 1, 640, 640) = Inr ((), ())
   \<and> nms_run (paint_session \<lparr>dims = [1, 0, 38], data = []\<rparr>) ()
        (map float32 [Num (real (numClass stub_modules)), Num 0, Num 2, Num (- 1)])
       = Inr \<lparr>dims = [1, 0, 38], data = []\<rparr>
   \<and> detectImage stub_modules \<lparr>cols = 640, rows = 480\<rparr>
        (paint_session \<lparr>dims = [1, 0, 38], data = []\<rparr>) 0 2 (- 1) (3, 1, 640, 640)
       = Inr ([], new_overlay 640 640)"
proof -
  let ?ses = "paint_session \<lparr>dims = [1, 0, 38], data = []\<rparr>"
  let ?img = "\<lparr>cols = 640, rows = 480\<rparr>"
  have p: "preprocessing ?img 640 640 default_stride
     = (Inr ((?img, 640, 640), Num 1, double (640 / 480))
         :: unit failure + blob \<times> number \<times> number)"
    by (simp add: stub_eval)
  have n: "net_run ?ses (?img, 640, 640) (3, 1, 640, 640) = Inr ((), ())"
    by (simp add: paint_session_def)
  have s: "nms_run ?ses ()
        (map float32 [Num (real (numClass stub_modules)), Num 0, Num 2, Num (- 1)])
       = Inr \<lparr>dims = [1, 0, 38], data = []\<rparr>"
    by (simp add: paint_session_def)
  have f3: "tensor_fits (?img, 640, 640) (3, 1, 640, 640)"
    and f7: "\<not> tensor_fits (?img, 640, 640) (7, 3, 640, 640)"
    by (simp_all add: tensor_fits_def data32F_length_def)
  note t3 = detectImage_config_unchecked [OF p, of 3 1 stub_modules ?ses 0 2 "- 1"]
  note t7 = detectImage_config_unchecked [OF p, of 7 3 stub_modules ?ses 0 2 "- 1"]
  from t7 f7 have d7: "detectImage stub_modules ?img ?ses 0 2 (- 1) (7, 3, 640, 640)
       = Inl TensorSizeError"
    by blast
  from t3 f3 n s have "detectImage stub_modules ?img ?ses 0 2 (- 1) (3, 1, 640, 640)
       = (case rows_loop
                 \<lparr>pass_modules = stub_modules, pass_session = ?ses,
                  pass_maxSize = Num (real (max (640 :: nat) 640)),
                  pass_xRatio = Num 1, pass_yRatio = double (640 / 480),
                  pass_selected = \<lparr>dims = [1, 0, 38], data = []\<rparr>, pass_output1 = ()\<rparr>
                 0 ([], new_overlay 640 640) of
            Inl e \<Rightarrow> Inl (RunError e)
          | Inr result \<Rightarrow> Inr result)"
    by blast
  then have d3: "detectImage stub_modules ?img ?ses 0 2 (- 1) (3, 1, 640, 640)
       = Inr ([], new_overlay 640 640)"
    by (simp add: rows_loop_thread pass_count_def)
  from p f3 f7 d7 n s d3 show ?thesis by simp
qed

text \<open>
  C9 as the specification states it: a row with fewer than \<open>4 + numClasses\<close> elements
  makes the pass fail. With two classes, a selected tensor whose only row is
  \<open>[100, 100, 50, 50, 0.9]\<close> is decoded, and the pass returns its detection and the
  overlay of its mask.
\<close>

theorem detectImage_decodes_short_row:
  "detectImage stub_modules \<lparr>cols = 640, rows = 640\<rparr>
     (paint_session \<lparr>dims = [1, 1, 5], data = [100, 100, 50, 50, 9 / 10]\<rparr>)
     100 (45 / 100) (25 / 100) (1, 3, 640, 640)
   = Inr ([\<lparr>label = Some ''person'', probability = Num (9 / 10), color = 0,
            bounding = finite_box 75 75 50 50\<rparr>],
          (new_overlay 640 640)\<lparr>odata := (odata (new_overlay 640 640))[0 := 75]\<rparr>)"
  by (simp add: stub_eval del: overflowBoxes.simps)

text \<open>
  C9, amended. A row with fewer than \<open>4 + numClasses\<close> elements raises no error: when
  the mask-generation calls of the rows succeed, the loop returns a list with a
  detection for this row as for every other, decoded from the elements that are there.
  Its scores are the elements from index 4 on, its probability is their maximum
  (\<open>-Infinity\<close> without any) and its label the class of the first index that attains it.
\<close>

theorem short_row_is_decoded:
  assumes "idx < pass_count P"
    and "length (row_data (pass_selected P) idx) < 4 + numClass (pass_modules P)"
    and "thread_masks P [0..<pass_count P] ov0 = Inr ov"
  shows "\<exists>boxes. rows_loop P 0 ([], ov0) = Inr (boxes, ov)
     \<and> length boxes = pass_count P
     \<and> probability (boxes ! idx) = Math_max (drop 4 (row_data (pass_selected P) idx))
     \<and> label (boxes ! idx) =
         labels_at (labels (pass_modules P))
           (indexOf (drop 4 (row_data (pass_selected P) idx))
              (Math_max (drop 4 (row_data (pass_selected P) idx))))"
proof -
  let ?row = "row_data (pass_selected P) idx"
  have scores: "row_scores (numClass (pass_modules P)) ?row = drop 4 ?row"
    using assms(2) by (simp add: row_scores_def slice_def)
  have loop: "rows_loop P 0 ([], ov0) = Inr (map (pass_decode P) [0..<pass_count P], ov)"
    using assms(3) by (simp add: rows_loop_result)
  have nth: "map (pass_decode P) [0..<pass_count P] ! idx = pass_decode P idx"
    using assms(1) by simp
  show ?thesis
    by (intro exI [of _ "map (pass_decode P) [0..<pass_count P]"] conjI loop)
       (simp_all add: nth pass_decode_def pass_row_def decode_row_def row_score_def
          row_label_def scores)
qed

theorem short_row_is_decoded_witness:
  "0 < pass_count (stub_pass \<lparr>dims = [1, 1, 5], data = [100, 100, 50, 50, 9 / 10]\<rparr>)
   \<and> length (row_data
        (pass_selected (stub_pass \<lparr>dims = [1, 1, 5], data = [100, 100, 50, 50, 9 / 10]\<rparr>)) 0)
       < 4 + numClass
             (pass_modules (stub_pass \<lparr>dims = [1, 1, 5], data = [100, 100, 50, 50, 9 / 10]\<rparr>))
   \<and> thread_masks (stub_pass \<lparr>dims = [1, 1, 5], data = [100, 100, 50, 50, 9 / 10]\<rparr>)
        [0..<pass_count (stub_pass \<lparr>dims = [1, 1, 5], data = [100, 100, 50, 50, 9 / 10]\<rparr>)]
        \<lparr>odims = [0, 0, 4], odata = []\<rparr>
       = Inr \<lparr>odims = [0, 0, 4], odata = [75]\<rparr>
   \<and> rows_loop (stub_pass \<lparr>dims = [1, 1, 5], data = [100, 100, 50, 50, 9 / 10]\<rparr>) 0
        ([], \<lparr>odims = [0, 0, 4], odata = []\<rparr>)
      = Inr ([\<lparr>label = Some ''person'', probability = Num (9 / 10), color = 0,
               bounding = finite_box 75 75 50 50\<rparr>],
             \<lparr>odims = [0, 0, 4], odata = [75]\<rparr>)"
  using short_row_is_decoded
    [of 0 "stub_pass \<lparr>dims = [1, 1, 5], data = [100, 100, 50, 50, 9 / 10]\<rparr>"
        "\<lparr>odims = [0, 0, 4], odata = []\<rparr>" "\<lparr>odims = [0, 0, 4], odata = [75]\<rparr>"]
  by (simp add: stub_eval del: overflowBoxes.simps)

end
